theory Spec2Isabelle
  imports Main
begin

section \<open>Customer database: data model\<close>

text \<open>
  The module \<^verbatim>\<open>basic_operations.py\<close> implements five operations on one table of
  customers through an object-relational mapper. A row of the table is a record with
  the eight columns the source reads in \<^verbatim>\<open>search_customer\<close>.

  Modelled from the spec: the module \<^verbatim>\<open>customer_model\<close> (the class
  \<^verbatim>\<open>Customer\<close> and the handle \<^verbatim>\<open>database\<close>) is imported by the source
  but is not part of it. The spec gives its schema: a customers table with the columns
  customer_id (primary key), name, last_name, home_address, phone_number, email_address,
  status (a string) and credit_limit (numeric).
\<close>

record customer =
  customer_id :: string
  name :: string
  last_name :: string
  home_address :: string
  phone_number :: string
  email_address :: string
  status :: string
  credit_limit :: int

text \<open>
  The table is the list of its rows, in insertion order. The list type admits
  repeated keys; that the operations never create one is a property proved below,
  not an assumption built into the type.
\<close>

type_synonym database = "customer list"

definition ids :: "database \<Rightarrow> string set" where
  "ids d = customer_id ` set d"

definition unique_ids :: "database \<Rightarrow> bool" where
  "unique_ids d = distinct (map customer_id d)"

text \<open>The values a Python dictionary built by the source holds: strings and numbers.\<close>

datatype pyvalue = Str string | Num int

text \<open>Exceptions are values. \<open>IntegrityError\<close> is the mapper's, \<open>ValueError\<close> Python's.\<close>

datatype error = IntegrityError | ValueError

text \<open>
  What a call does beyond the table and its result: the text printed, the calls to the
  logger (with their level and formatted message) and the warnings handed to Python's
  \<^verbatim>\<open>warnings.warn\<close> with category \<^verbatim>\<open>UserWarning\<close>.
\<close>

datatype event =
    Printed error
  | LogInfo string
  | LogWarning string
  | UserWarning string

text \<open>
  A call returns its result (or the exception it raises), the table it leaves behind
  and the events it emitted, in order.
\<close>

record 'a outcome =
  result :: "error + 'a"
  db :: database
  emitted :: "event list"

section \<open>The mapper's primitives\<close>

text \<open>
  Modelled from the spec: \<^verbatim>\<open>Customer.get_or_none(Customer.customer_id == k)\<close>, the
  lookup by key of the absent \<^verbatim>\<open>customer_model\<close>: the row whose key equals
  \<open>k\<close>, or \<^verbatim>\<open>None\<close>.
\<close>

definition get_or_none :: "database \<Rightarrow> string \<Rightarrow> customer option" where
  "get_or_none d k = find (\<lambda>r. customer_id r = k) d"

text \<open>
  Modelled from the spec: \<^verbatim>\<open>Customer.create(...)\<close> of the absent
  \<^verbatim>\<open>customer_model\<close>, an insert into a table whose primary key is customer_id:
  it raises \<^verbatim>\<open>IntegrityError\<close> when a row with the key exists and appends the
  row otherwise.
\<close>

definition create :: "database \<Rightarrow> customer \<Rightarrow> error + database" where
  "create d c =
     (if customer_id c \<in> ids d then Inl IntegrityError else Inr (d @ [c]))"

text \<open>
  Modelled from the spec: \<^verbatim>\<open>instance.save()\<close> of the absent
  \<^verbatim>\<open>customer_model\<close> on an instance whose key is set: an update of every
  column other than the key, in the rows whose key is the instance's.
\<close>

definition save :: "database \<Rightarrow> customer \<Rightarrow> database" where
  "save d c =
     map (\<lambda>r. if customer_id r = customer_id c
               then r\<lparr>name := name c, last_name := last_name c,
                      home_address := home_address c, phone_number := phone_number c,
                      email_address := email_address c, status := status c,
                      credit_limit := credit_limit c\<rparr>
               else r) d"

text \<open>
  Modelled from the spec: \<^verbatim>\<open>Customer.delete().where(Customer.customer_id == k).execute()\<close>
  of the absent \<^verbatim>\<open>customer_model\<close>: the rows with key \<open>k\<close> are removed and the
  number of removed rows is returned.
\<close>

definition delete_where :: "database \<Rightarrow> string \<Rightarrow> database \<times> nat" where
  "delete_where d k =
     (filter (\<lambda>r. customer_id r \<noteq> k) d, length (filter (\<lambda>r. customer_id r = k) d))"

text \<open>
  Modelled from the spec: \<^verbatim>\<open>Customer.select().where(Customer.status == s)\<close> of the
  absent \<^verbatim>\<open>customer_model\<close>: the rows whose status equals \<open>s\<close>.
\<close>

definition select_where_status :: "database \<Rightarrow> string \<Rightarrow> customer list" where
  "select_where_status d s = filter (\<lambda>r. status r = s) d"

section \<open>The five operations\<close>

text \<open>
  \<^verbatim>\<open>add_customer\<close>: inside \<^verbatim>\<open>database.atomic()\<close>, create the row and save it
  again, logging at level info; an \<^verbatim>\<open>IntegrityError\<close> is caught, printed and
  logged at level warning. The function returns \<^verbatim>\<open>None\<close> on both paths.
\<close>

definition add_customer ::
  "database \<Rightarrow> string \<Rightarrow> string \<Rightarrow> string \<Rightarrow> string \<Rightarrow> string \<Rightarrow> string \<Rightarrow> string \<Rightarrow> int
     \<Rightarrow> unit outcome" where
  "add_customer d cid nm ln ha ph em st cl =
     (let new_customer = \<lparr>customer_id = cid, name = nm, last_name = ln, home_address = ha,
                          phone_number = ph, email_address = em, status = st,
                          credit_limit = cl\<rparr>
      in case create d new_customer of
           Inr d' \<Rightarrow>
             \<lparr>result = Inr (), db = save d' new_customer,
              emitted = [LogInfo (''New Customer: '' @ cid @
                                  '', created and saved to the database.'')]\<rparr>
         | Inl err \<Rightarrow>
             \<lparr>result = Inr (), db = d,
              emitted = [Printed err,
                         LogWarning (''Error, could not add customer '' @ cid @ ''.'')]\<rparr>)"

text \<open>The dictionary \<^verbatim>\<open>search_customer\<close> builds from a row: eight keys.\<close>

definition customer_dict :: "customer \<Rightarrow> (string \<rightharpoonup> pyvalue)" where
  "customer_dict c =
     [''customer_id'' \<mapsto> Str (customer_id c),
      ''name'' \<mapsto> Str (name c),
      ''last_name'' \<mapsto> Str (last_name c),
      ''home_address'' \<mapsto> Str (home_address c),
      ''phone_number'' \<mapsto> Str (phone_number c),
      ''email_address'' \<mapsto> Str (email_address c),
      ''status'' \<mapsto> Str (status c),
      ''credit_limit'' \<mapsto> Num (credit_limit c)]"

definition search_customer :: "database \<Rightarrow> string \<Rightarrow> (string \<rightharpoonup> pyvalue) outcome" where
  "search_customer d cid =
     (case get_or_none d cid of
        Some c \<Rightarrow> \<lparr>result = Inr (customer_dict c), db = d, emitted = []\<rparr>
      | None \<Rightarrow> \<lparr>result = Inr Map.empty, db = d, emitted = []\<rparr>)"

definition delete_customer :: "database \<Rightarrow> string \<Rightarrow> unit outcome" where
  "delete_customer d cid =
     (let (d', query) = delete_where d cid
      in if query = 0
         then \<lparr>result = Inr (), db = d',
               emitted = [UserWarning (''User with customer_id='' @ cid @
                                       '' does not exist in the database.'')]\<rparr>
         else \<lparr>result = Inr (), db = d', emitted = []\<rparr>)"

definition update_customer_credit :: "database \<Rightarrow> string \<Rightarrow> int \<Rightarrow> unit outcome" where
  "update_customer_credit d cid cl =
     (case get_or_none d cid of
        Some c \<Rightarrow>
          \<lparr>result = Inr (), db = save d (c\<lparr>credit_limit := cl\<rparr>),
           emitted = [LogInfo (''Updating credit limit for customer with id: '' @ cid)]\<rparr>
      | None \<Rightarrow> \<lparr>result = Inl ValueError, db = d, emitted = []\<rparr>)"

text \<open>
  \<^verbatim>\<open>list_active_customers\<close> formats the count into its log message; the decimal
  digits of a natural number are computed by \<open>digits\<close>.
\<close>

fun digits :: "nat \<Rightarrow> string" where
  "digits n =
     (if n < 10 then [char_of (48 + n)]
      else digits (n div 10) @ [char_of (48 + n mod 10)])"

declare digits.simps [simp del]

definition list_active_customers :: "database \<Rightarrow> nat outcome" where
  "list_active_customers d =
     (let active_customers = length (select_where_status d ''Active'')
      in \<lparr>result = Inr active_customers, db = d,
          emitted = [LogInfo (''Number of active customers: '' @ digits active_customers)]\<rparr>)"

section \<open>Sequences of calls\<close>

text \<open>
  A caller's program is a sequence of calls of the five operations. A call that raises
  leaves the table it reached; the caller may catch the exception and go on, so the
  sequence continues from that table.
\<close>

datatype command =
    Add string string string string string string string int
  | Search string
  | Delete string
  | Update string int
  | ListActive

fun perform :: "database \<Rightarrow> command \<Rightarrow> database" where
  "perform d (Add cid nm ln ha ph em st cl) = db (add_customer d cid nm ln ha ph em st cl)"
| "perform d (Search cid) = db (search_customer d cid)"
| "perform d (Delete cid) = db (delete_customer d cid)"
| "perform d (Update cid cl) = db (update_customer_credit d cid cl)"
| "perform d ListActive = db (list_active_customers d)"

definition perform_all :: "database \<Rightarrow> command list \<Rightarrow> database" where
  "perform_all d cs = foldl perform d cs"

text \<open>Adding the customers of a list, one call of \<^verbatim>\<open>add_customer\<close> each.\<close>

definition add_row :: "database \<Rightarrow> customer \<Rightarrow> database" where
  "add_row d c =
     db (add_customer d (customer_id c) (name c) (last_name c) (home_address c)
           (phone_number c) (email_address c) (status c) (credit_limit c))"

definition add_customers :: "database \<Rightarrow> customer list \<Rightarrow> database" where
  "add_customers d cs = foldl add_row d cs"

text \<open>Two rows on which the theorems below are instantiated.\<close>

definition alice :: customer where
  "alice = \<lparr>customer_id = ''C1'', name = ''Alice'', last_name = ''Moore'',
            home_address = ''1 Pine St'', phone_number = ''555-0100'',
            email_address = ''alice@example.com'', status = ''Active'',
            credit_limit = 500\<rparr>"

definition bob :: customer where
  "bob = \<lparr>customer_id = ''C2'', name = ''Bob'', last_name = ''Stone'',
          home_address = ''2 Oak Ave'', phone_number = ''555-0101'',
          email_address = ''bob@example.com'', status = ''Inactive'',
          credit_limit = 250\<rparr>"

section \<open>Facts about the mapper's primitives\<close>

lemma get_or_none_None_iff: "get_or_none d k = None \<longleftrightarrow> k \<notin> ids d"
  by (auto simp: get_or_none_def ids_def find_None_iff)

lemma get_or_none_SomeD: "get_or_none d k = Some r \<Longrightarrow> r \<in> set d \<and> customer_id r = k"
  by (auto simp: get_or_none_def find_Some_iff)

lemma get_or_none_append:
  "get_or_none (d @ e) k =
     (case get_or_none d k of Some r \<Rightarrow> Some r | None \<Rightarrow> get_or_none e k)"
  by (induction d) (auto simp: get_or_none_def)

text \<open>Overwriting every column but the key with those of a row of the same key gives that row.\<close>

lemma overwrite_row:
  "customer_id r = customer_id c \<Longrightarrow>
   r\<lparr>name := name c, last_name := last_name c, home_address := home_address c,
     phone_number := phone_number c, email_address := email_address c, status := status c,
     credit_limit := credit_limit c\<rparr> = (c::customer)"
  by (cases r, cases c) simp

lemma save_eq: "save d c = map (\<lambda>r. if customer_id r = customer_id c then c else r) d"
  unfolding save_def by (rule map_cong) (auto simp: overwrite_row)

lemma map_customer_id_save: "map customer_id (save d c) = map customer_id d"
  by (induction d) (auto simp: save_eq)

lemma get_or_none_save:
  "get_or_none (save d c) k =
     (case get_or_none d k of
        None \<Rightarrow> None
      | Some r \<Rightarrow> Some (if k = customer_id c then c else r))"
  by (induction d) (auto simp: get_or_none_def save_eq)

lemma save_absent: "customer_id c \<notin> ids d \<Longrightarrow> save d c = d"
  by (induction d) (auto simp: save_eq ids_def)

lemma save_append_fresh: "customer_id c \<notin> ids d \<Longrightarrow> save (d @ [c]) c = d @ [c]"
  using save_absent [of c d] by (simp add: save_eq)

section \<open>Facts about the operations\<close>

lemma add_customer_fresh:
  "cid \<notin> ids d \<Longrightarrow>
   add_customer d cid nm ln ha ph em st cl =
     \<lparr>result = Inr (),
      db = d @ [\<lparr>customer_id = cid, name = nm, last_name = ln, home_address = ha,
                 phone_number = ph, email_address = em, status = st, credit_limit = cl\<rparr>],
      emitted = [LogInfo (''New Customer: '' @ cid @
                          '', created and saved to the database.'')]\<rparr>"
  by (simp add: add_customer_def create_def Let_def save_append_fresh)

lemma add_customer_present:
  "cid \<in> ids d \<Longrightarrow>
   add_customer d cid nm ln ha ph em st cl =
     \<lparr>result = Inr (), db = d,
      emitted = [Printed IntegrityError,
                 LogWarning (''Error, could not add customer '' @ cid @ ''.'')]\<rparr>"
  by (simp add: add_customer_def create_def Let_def)

lemma dom_customer_dict:
  "dom (customer_dict c) =
     {''customer_id'', ''name'', ''last_name'', ''home_address'',
      ''phone_number'', ''email_address'', ''status'', ''credit_limit''}"
  by (auto simp: customer_dict_def)

lemma customer_dict_fields:
  "customer_dict c ''customer_id'' = Some (Str (customer_id c))"
  "customer_dict c ''name'' = Some (Str (name c))"
  "customer_dict c ''last_name'' = Some (Str (last_name c))"
  "customer_dict c ''home_address'' = Some (Str (home_address c))"
  "customer_dict c ''phone_number'' = Some (Str (phone_number c))"
  "customer_dict c ''email_address'' = Some (Str (email_address c))"
  "customer_dict c ''status'' = Some (Str (status c))"
  "customer_dict c ''credit_limit'' = Some (Num (credit_limit c))"
  by (simp_all add: customer_dict_def)

lemma delete_where_absent: "cid \<notin> ids d \<Longrightarrow> delete_where d cid = (d, 0)"
  by (induction d) (auto simp: delete_where_def ids_def)

lemma delete_count_zero_iff: "snd (delete_where d cid) = 0 \<longleftrightarrow> cid \<notin> ids d"
  by (auto simp: delete_where_def ids_def filter_empty_conv)

lemma length_filter_status:
  "length (filter (\<lambda>r. status r = s) d) = count_list (map status d) s"
  by (induction d) auto

lemma add_row_fresh: "customer_id c \<notin> ids d \<Longrightarrow> add_row d c = d @ [c]"
  by (simp add: add_row_def add_customer_fresh)

text \<open>Adding rows with fresh, pairwise different keys appends them in order.\<close>

lemma add_customers_fresh:
  "distinct (map customer_id cs) \<Longrightarrow> ids d \<inter> customer_id ` set cs = {} \<Longrightarrow>
   add_customers d cs = d @ cs"
proof (induction cs arbitrary: d)
  case Nil
  then show ?case by (simp add: add_customers_def)
next
  case (Cons c cs)
  from Cons.prems have fresh: "customer_id c \<notin> ids d"
    by auto
  have "ids (d @ [c]) \<inter> customer_id ` set cs = {}"
    using Cons.prems by (auto simp: ids_def)
  moreover have "distinct (map customer_id cs)"
    using Cons.prems by simp
  ultimately have "add_customers (d @ [c]) cs = (d @ [c]) @ cs"
    by (rule Cons.IH [rotated])
  then show ?case
    using fresh by (simp add: add_customers_def add_row_fresh)
qed

lemma unique_ids_add:
  "unique_ids d \<Longrightarrow> unique_ids (db (add_customer d cid nm ln ha ph em st cl))"
  by (cases "cid \<in> ids d")
     (auto simp: add_customer_present add_customer_fresh unique_ids_def ids_def)

lemma unique_ids_delete: "unique_ids d \<Longrightarrow> unique_ids (db (delete_customer d cid))"
  by (simp add: delete_customer_def delete_where_def unique_ids_def distinct_map_filter)

lemma unique_ids_update:
  "unique_ids d \<Longrightarrow> unique_ids (db (update_customer_credit d cid cl))"
  by (simp add: update_customer_credit_def unique_ids_def map_customer_id_save
           split: option.split)

lemma unique_ids_perform: "unique_ids d \<Longrightarrow> unique_ids (perform d c)"
  by (cases c)
     (simp_all add: unique_ids_add unique_ids_delete unique_ids_update
        search_customer_def list_active_customers_def Let_def split: option.split)

section \<open>Adding, then searching\<close>

text \<open>
  C1. For every customer id that the table does not hold and all field values,
  \<^verbatim>\<open>add_customer\<close> with that id and those values followed by
  \<^verbatim>\<open>search_customer\<close> with the same id returns a dictionary that maps each of
  the eight field names to the value supplied, and has no other key.
\<close>

theorem add_then_search:
  "cid \<notin> ids d \<Longrightarrow>
   (\<exists>m. result (search_customer (db (add_customer d cid nm ln ha ph em st cl)) cid) = Inr m \<and>
        m ''customer_id'' = Some (Str cid) \<and> m ''name'' = Some (Str nm) \<and>
        m ''last_name'' = Some (Str ln) \<and> m ''home_address'' = Some (Str ha) \<and>
        m ''phone_number'' = Some (Str ph) \<and> m ''email_address'' = Some (Str em) \<and>
        m ''status'' = Some (Str st) \<and> m ''credit_limit'' = Some (Num cl) \<and>
        dom m = {''customer_id'', ''name'', ''last_name'', ''home_address'',
                 ''phone_number'', ''email_address'', ''status'', ''credit_limit''})"
proof -
  assume fresh: "cid \<notin> ids d"
  let ?c = "\<lparr>customer_id = cid, name = nm, last_name = ln, home_address = ha,
             phone_number = ph, email_address = em, status = st, credit_limit = cl\<rparr>"
  have "get_or_none d cid = None"
    using fresh by (simp add: get_or_none_None_iff)
  then have "get_or_none (d @ [?c]) cid = Some ?c"
    by (simp add: get_or_none_append) (simp add: get_or_none_def)
  then have "result (search_customer (db (add_customer d cid nm ln ha ph em st cl)) cid)
               = Inr (customer_dict ?c)"
    using fresh by (simp add: add_customer_fresh search_customer_def)
  then show ?thesis
    by (simp add: customer_dict_fields dom_customer_dict)
qed

theorem add_then_search_witness:
  "''C2'' \<notin> ids [alice] \<and>
   (\<exists>m. result (search_customer
                  (db (add_customer [alice] ''C2'' ''Bob'' ''Stone'' ''2 Oak Ave'' ''555-0101''
                         ''bob@example.com'' ''Inactive'' 250)) ''C2'') = Inr m \<and>
        m ''customer_id'' = Some (Str ''C2'') \<and> m ''name'' = Some (Str ''Bob'') \<and>
        m ''last_name'' = Some (Str ''Stone'') \<and> m ''home_address'' = Some (Str ''2 Oak Ave'') \<and>
        m ''phone_number'' = Some (Str ''555-0101'') \<and>
        m ''email_address'' = Some (Str ''bob@example.com'') \<and>
        m ''status'' = Some (Str ''Inactive'') \<and> m ''credit_limit'' = Some (Num 250) \<and>
        dom m = {''customer_id'', ''name'', ''last_name'', ''home_address'',
                 ''phone_number'', ''email_address'', ''status'', ''credit_limit''})"
proof -
  have fresh: "''C2'' \<notin> ids [alice]"
    by (simp add: ids_def alice_def)
  show ?thesis
    using fresh add_then_search [OF fresh] by blast
qed

section \<open>Adding an id twice\<close>

text \<open>
  C2. For every table that holds a record with a given customer id, a call of
  \<^verbatim>\<open>add_customer\<close> with that id returns normally (the duplicate-key error is
  caught inside the function, where it is printed) and leaves the table, hence the
  fields of the original record, as they were.
\<close>

theorem add_customer_duplicate:
  "cid \<in> ids d \<Longrightarrow>
   result (add_customer d cid nm ln ha ph em st cl) = Inr () \<and>
   db (add_customer d cid nm ln ha ph em st cl) = d \<and>
   Printed IntegrityError \<in> set (emitted (add_customer d cid nm ln ha ph em st cl))"
  by (simp add: add_customer_present)

theorem add_customer_duplicate_witness:
  "''C1'' \<in> ids [alice, bob] \<and>
   result (add_customer [alice, bob] ''C1'' ''Eve'' ''Hart'' ''9 Elm Rd'' ''555-0199''
             ''eve@example.com'' ''Active'' 900) = Inr () \<and>
   db (add_customer [alice, bob] ''C1'' ''Eve'' ''Hart'' ''9 Elm Rd'' ''555-0199''
         ''eve@example.com'' ''Active'' 900) = [alice, bob]"
proof -
  have present: "''C1'' \<in> ids [alice, bob]"
    by (simp add: ids_def alice_def)
  show ?thesis
    using present add_customer_duplicate [OF present] by simp
qed

section \<open>Searching\<close>

text \<open>
  C3. For every customer id that the table does not hold, \<^verbatim>\<open>search_customer\<close>
  returns the empty dictionary. For every id the table holds it returns the dictionary
  of a record with that id; where ids are unique, every record of the table is found
  under its own id. The dictionary of a record has exactly the eight keys customer_id,
  name, last_name, home_address, phone_number, email_address, status and credit_limit,
  each mapped to the record's field.
\<close>

theorem search_customer_result:
  "(cid \<notin> ids d \<longrightarrow> result (search_customer d cid) = Inr Map.empty) \<and>
   (cid \<in> ids d \<longrightarrow>
      (\<exists>r \<in> set d. customer_id r = cid \<and>
                   result (search_customer d cid) = Inr (customer_dict r))) \<and>
   (unique_ids d \<longrightarrow>
      (\<forall>r \<in> set d. result (search_customer d (customer_id r)) = Inr (customer_dict r))) \<and>
   dom (customer_dict r) =
     {''customer_id'', ''name'', ''last_name'', ''home_address'',
      ''phone_number'', ''email_address'', ''status'', ''credit_limit''} \<and>
   customer_dict r ''customer_id'' = Some (Str (customer_id r)) \<and>
   customer_dict r ''name'' = Some (Str (name r)) \<and>
   customer_dict r ''last_name'' = Some (Str (last_name r)) \<and>
   customer_dict r ''home_address'' = Some (Str (home_address r)) \<and>
   customer_dict r ''phone_number'' = Some (Str (phone_number r)) \<and>
   customer_dict r ''email_address'' = Some (Str (email_address r)) \<and>
   customer_dict r ''status'' = Some (Str (status r)) \<and>
   customer_dict r ''credit_limit'' = Some (Num (credit_limit r))"
proof -
  have absent: "result (search_customer d cid) = Inr Map.empty" if "cid \<notin> ids d"
    using that by (simp add: search_customer_def get_or_none_None_iff [symmetric])
  have present: "\<exists>r \<in> set d. customer_id r = cid \<and>
                   result (search_customer d cid) = Inr (customer_dict r)" if "cid \<in> ids d"
  proof -
    from that obtain r where r: "get_or_none d cid = Some r"
      using get_or_none_None_iff [of d cid] by auto
    then show ?thesis
      using get_or_none_SomeD [OF r] by (auto simp: search_customer_def)
  qed
  have uniq: "result (search_customer d (customer_id r)) = Inr (customer_dict r)"
    if "unique_ids d" "r \<in> set d" for r
  proof -
    from that(2) have "customer_id r \<in> ids d"
      by (simp add: ids_def)
    then obtain r' where r': "get_or_none d (customer_id r) = Some r'"
      using get_or_none_None_iff [of d "customer_id r"] by auto
    then have "r' \<in> set d" "customer_id r' = customer_id r"
      using get_or_none_SomeD [OF r'] by simp_all
    with that have "r' = r"
      by (auto simp: unique_ids_def distinct_map inj_on_def)
    with r' show ?thesis
      by (simp add: search_customer_def)
  qed
  show ?thesis
    using absent present uniq by (simp add: dom_customer_dict customer_dict_fields)
qed

theorem search_customer_result_witness:
  "''C3'' \<notin> ids [alice, bob] \<and> result (search_customer [alice, bob] ''C3'') = Inr Map.empty \<and>
   ''C2'' \<in> ids [alice, bob] \<and> unique_ids [alice, bob] \<and> bob \<in> set [alice, bob] \<and>
   result (search_customer [alice, bob] ''C2'') = Inr (customer_dict bob)"
  using search_customer_result [of "''C3''" "[alice, bob]" bob]
        search_customer_result [of "''C2''" "[alice, bob]" bob]
  by (simp add: ids_def unique_ids_def alice_def bob_def)

section \<open>Deleting\<close>

text \<open>
  C4. For every customer id that the table does not hold, \<^verbatim>\<open>delete_customer\<close>
  returns normally, leaves the table as it was and emits one warning of category
  \<^verbatim>\<open>UserWarning\<close>.
\<close>

theorem delete_customer_absent:
  "cid \<notin> ids d \<Longrightarrow>
   delete_customer d cid =
     \<lparr>result = Inr (), db = d,
      emitted = [UserWarning (''User with customer_id='' @ cid @
                              '' does not exist in the database.'')]\<rparr>"
  by (simp add: delete_customer_def delete_where_absent)

theorem delete_customer_absent_witness:
  "''C3'' \<notin> ids [alice, bob] \<and>
   delete_customer [alice, bob] ''C3'' =
     \<lparr>result = Inr (), db = [alice, bob],
      emitted = [UserWarning ''User with customer_id=C3 does not exist in the database.'']\<rparr>"
proof -
  have absent: "''C3'' \<notin> ids [alice, bob]"
    by (simp add: ids_def alice_def bob_def)
  show ?thesis
    using absent delete_customer_absent [OF absent] by simp
qed

text \<open>
  C10. \<^verbatim>\<open>delete_customer\<close> emits a warning exactly when the table holds no record
  with the id, which is exactly when the number of deleted rows is zero; for an id the
  table holds it emits nothing.
\<close>

theorem delete_customer_warning:
  "((\<exists>w. UserWarning w \<in> set (emitted (delete_customer d cid))) \<longleftrightarrow> cid \<notin> ids d) \<and>
   (cid \<notin> ids d \<longleftrightarrow> snd (delete_where d cid) = 0) \<and>
   (cid \<in> ids d \<longrightarrow> emitted (delete_customer d cid) = [])"
  by (auto simp: delete_customer_def delete_count_zero_iff [symmetric] split: prod.splits)

theorem delete_customer_warning_witness:
  "''C1'' \<in> ids [alice, bob] \<and> emitted (delete_customer [alice, bob] ''C1'') = [] \<and>
   ''C3'' \<notin> ids [alice, bob] \<and>
   (\<exists>w. UserWarning w \<in> set (emitted (delete_customer [alice, bob] ''C3''))) \<and>
   snd (delete_where [alice, bob] ''C3'') = 0"
  using delete_customer_warning [of "[alice, bob]" "''C1''"]
        delete_customer_warning [of "[alice, bob]" "''C3''"]
  by (simp add: ids_def alice_def bob_def)

section \<open>Updating the credit limit\<close>

text \<open>
  C5. \<^verbatim>\<open>update_customer_credit\<close> raises \<^verbatim>\<open>ValueError\<close> exactly when the table
  holds no record with the id; in that case the table is left as it was, and otherwise
  the call returns normally.
\<close>

theorem update_customer_credit_absent:
  "(result (update_customer_credit d cid cl) = Inl ValueError \<longleftrightarrow> cid \<notin> ids d) \<and>
   (cid \<notin> ids d \<longrightarrow> db (update_customer_credit d cid cl) = d) \<and>
   (cid \<in> ids d \<longrightarrow> result (update_customer_credit d cid cl) = Inr ())"
  by (cases "get_or_none d cid")
     (auto simp: update_customer_credit_def get_or_none_None_iff [symmetric])

theorem update_customer_credit_absent_witness:
  "''C3'' \<notin> ids [alice, bob] \<and>
   result (update_customer_credit [alice, bob] ''C3'' 700) = Inl ValueError \<and>
   db (update_customer_credit [alice, bob] ''C3'' 700) = [alice, bob] \<and>
   ''C1'' \<in> ids [alice, bob] \<and>
   result (update_customer_credit [alice, bob] ''C1'' 700) = Inr ()"
  using update_customer_credit_absent [of "[alice, bob]" "''C3''" 700]
        update_customer_credit_absent [of "[alice, bob]" "''C1''" 700]
  by (simp add: ids_def alice_def bob_def)

text \<open>
  C7. For every customer id the table holds and every new limit,
  \<^verbatim>\<open>update_customer_credit\<close> returns normally, and the record found under the id
  afterwards has the new limit as its credit_limit and the customer_id, name, last_name,
  home_address, phone_number, email_address and status of the record found before.
\<close>

theorem update_customer_credit_present:
  "cid \<in> ids d \<Longrightarrow>
   result (update_customer_credit d cid cl) = Inr () \<and>
   (\<exists>r r'. get_or_none d cid = Some r \<and>
           get_or_none (db (update_customer_credit d cid cl)) cid = Some r' \<and>
           credit_limit r' = cl \<and> customer_id r' = customer_id r \<and> name r' = name r \<and>
           last_name r' = last_name r \<and> home_address r' = home_address r \<and>
           phone_number r' = phone_number r \<and> email_address r' = email_address r \<and>
           status r' = status r)"
proof -
  assume "cid \<in> ids d"
  then obtain r where r: "get_or_none d cid = Some r"
    using get_or_none_None_iff [of d cid] by auto
  then have "customer_id r = cid"
    using get_or_none_SomeD [OF r] by simp
  then have "get_or_none (save d (r\<lparr>credit_limit := cl\<rparr>)) cid = Some (r\<lparr>credit_limit := cl\<rparr>)"
    using r by (simp add: get_or_none_save)
  with r show ?thesis
    by (simp add: update_customer_credit_def)
qed

theorem update_customer_credit_present_witness:
  "''C2'' \<in> ids [alice, bob] \<and>
   result (update_customer_credit [alice, bob] ''C2'' 700) = Inr () \<and>
   (\<exists>r r'. get_or_none [alice, bob] ''C2'' = Some r \<and>
           get_or_none (db (update_customer_credit [alice, bob] ''C2'' 700)) ''C2'' = Some r' \<and>
           credit_limit r' = 700 \<and> customer_id r' = customer_id r \<and> name r' = name r \<and>
           last_name r' = last_name r \<and> home_address r' = home_address r \<and>
           phone_number r' = phone_number r \<and> email_address r' = email_address r \<and>
           status r' = status r)"
proof -
  have present: "''C2'' \<in> ids [alice, bob]"
    by (simp add: ids_def bob_def)
  show ?thesis
    using present update_customer_credit_present [OF present] by blast
qed

section \<open>Counting active customers\<close>

text \<open>
  C6. For every table, \<^verbatim>\<open>list_active_customers\<close> returns the number of records
  whose status is the string \<open>Active\<close>. In particular, after adding, under fresh and
  pairwise different ids, \<open>n1\<close> customers with status \<open>Active\<close> and \<open>n2\<close> with
  status \<open>Inactive\<close>, it returns \<open>n1\<close> more than before, and \<open>n1\<close> when the
  table was empty.
\<close>

theorem list_active_customers_count:
  "result (list_active_customers d) = Inr (count_list (map status d) ''Active'') \<and>
   (distinct (map customer_id cs) \<and> ids d \<inter> customer_id ` set cs = {} \<and>
    count_list (map status cs) ''Active'' = n1 \<and>
    count_list (map status cs) ''Inactive'' = n2 \<and> length cs = n1 + n2 \<longrightarrow>
      result (list_active_customers (add_customers d cs)) =
        Inr (count_list (map status d) ''Active'' + n1) \<and>
      result (list_active_customers (add_customers [] cs)) = Inr n1)"
proof -
  have count: "result (list_active_customers e) = Inr (count_list (map status e) ''Active'')"
    for e
    by (simp add: list_active_customers_def select_where_status_def length_filter_status
          Let_def)
  have "add_customers d cs = d @ cs" "add_customers [] cs = cs"
    if "distinct (map customer_id cs)" "ids d \<inter> customer_id ` set cs = {}"
    using that add_customers_fresh [of cs d] add_customers_fresh [of cs "[]"]
    by (simp_all add: ids_def)
  then show ?thesis
    by (auto simp: count)
qed

theorem list_active_customers_count_witness:
  "distinct (map customer_id [alice, bob]) \<and> ids [] \<inter> customer_id ` set [alice, bob] = {} \<and>
   count_list (map status [alice, bob]) ''Active'' = 1 \<and>
   count_list (map status [alice, bob]) ''Inactive'' = 1 \<and>
   length [alice, bob] = 1 + 1 \<and>
   result (list_active_customers (add_customers [] [alice, bob])) = Inr 1"
  using list_active_customers_count [of "[]" "[alice, bob]" 1 1]
  by (simp add: ids_def alice_def bob_def)

section \<open>Uniqueness of the customer id\<close>

text \<open>
  C8. From a table in which customer_id is unique across all records, every sequence
  of calls of the five operations leads to a table in which customer_id is unique
  across all records.
\<close>

theorem unique_ids_preserved: "unique_ids d \<Longrightarrow> unique_ids (perform_all d cs)"
  unfolding perform_all_def
  by (induction cs arbitrary: d) (simp_all add: unique_ids_perform)

theorem unique_ids_preserved_witness:
  "unique_ids [alice] \<and>
   unique_ids (perform_all [alice]
     [Add ''C2'' ''Bob'' ''Stone'' ''2 Oak Ave'' ''555-0101'' ''bob@example.com'' ''Inactive'' 250,
      Add ''C1'' ''Eve'' ''Hart'' ''9 Elm Rd'' ''555-0199'' ''eve@example.com'' ''Active'' 900,
      Search ''C1'', Update ''C2'' 700, Update ''C3'' 5, ListActive, Delete ''C1'',
      Delete ''C3''])"
proof -
  have start: "unique_ids [alice]"
    by (simp add: unique_ids_def)
  show ?thesis
    using start unique_ids_preserved [OF start] by simp
qed

section \<open>Read-only queries\<close>

text \<open>
  C9. For every table and every customer id, \<^verbatim>\<open>search_customer\<close> and
  \<^verbatim>\<open>list_active_customers\<close> leave the table as it was.
\<close>

theorem queries_read_only:
  "db (search_customer d cid) = d \<and> db (list_active_customers d) = d"
  by (simp add: search_customer_def list_active_customers_def Let_def split: option.split)

end
